theory Spec2Isabelle
  imports Main
begin

section \<open>go-restclient: a REST client scoped to one host\<close>

text \<open>
  The repository holds two revisions of the client: \<^verbatim>\<open>src/restclient.go\<close> and
  \<^verbatim>\<open>src/unnamed/part_000\<close>. The second one renames the identifiers
  (\<^verbatim>\<open>use_https\<close> becomes \<^verbatim>\<open>useHTTPS\<close>), puts the parameters of the request functions in the
  order \<^verbatim>\<open>method, path\<close>, adds \<^verbatim>\<open>handleJSONResponse\<close> with its nil guard and adds
  \<^verbatim>\<open>defer resp.Body.Close()\<close> to \<^verbatim>\<open>customErrorResponse\<close>. Functions whose bodies agree in
  both files (\<^verbatim>\<open>fullPath\<close>, \<^verbatim>\<open>hasCustomError\<close>, \<^verbatim>\<open>SetErrorConstructor\<close>, \<^verbatim>\<open>New\<close>) are
  embedded once; the request functions are embedded from each file, those of
  \<^verbatim>\<open>src/restclient.go\<close> with the suffix \<open>_rc\<close>.
\<close>

subsection \<open>Values of the Go standard library\<close>

text \<open>
  A Go \<^verbatim>\<open>error\<close> is an interface value: \<open>None\<close> is \<^verbatim>\<open>nil\<close>, \<open>Some e\<close> an error with
  message \<open>e\<close>. An \<^verbatim>\<open>io.ReadCloser\<close> is a handle of a stream; \<open>None\<close> is the nil interface.
  An \<^verbatim>\<open>io.Reader\<close> handed in as a payload is its content.
\<close>

type_synonym go_error = string
type_synonym readCloser = nat

record request =
  Method :: string
  URL :: string
  ReqBody :: string

record response =
  StatusCode :: int
  Body :: readCloser

text \<open>
  What a call does besides returning, in the order it happens: \<open>Sent\<close> is
  \<^verbatim>\<open>(&http.Client{}).Do(req)\<close>, the only network I/O of the client; \<open>Called\<close> is the call of
  the custom error constructor; \<open>Decoded\<close> is \<^verbatim>\<open>json.NewDecoder(body).Decode(into)\<close>;
  \<open>ReadFrom\<close> and \<open>Closed\<close> are \<^verbatim>\<open>Read\<close> and \<^verbatim>\<open>Close\<close> on a response body.
\<close>

datatype event =
    Sent request
  | Called request response
  | Decoded readCloser
  | ReadFrom readCloser
  | Closed readCloser

text \<open>A call returns its results or panics; deferred calls run in both cases.\<close>

datatype 'a outcome = Return 'a | Panic

text \<open>
  The payload is an \<^verbatim>\<open>interface{}\<close>: either it satisfies \<^verbatim>\<open>io.Reader\<close>, or it is any other
  value (the nil interface included), of a type \<open>'v\<close>.
\<close>

datatype 'v payload = Reader string | Value 'v

text \<open>
  A custom error constructor is caller code of type
  \<^verbatim>\<open>func(*http.Request, *http.Response) error\<close>: it returns an error (which may be nil) and
  may read or close the body on the way. It is taken to return.
\<close>

type_synonym constructor = "request \<Rightarrow> response \<Rightarrow> go_error option \<times> event list"

text \<open>
  The standard library and the network are parameters of the model:
  \<^verbatim>\<open>json.Marshal\<close>, \<^verbatim>\<open>http.NewRequest\<close>, \<^verbatim>\<open>(&http.Client{}).Do\<close> and
  \<^verbatim>\<open>json.NewDecoder(body).Decode(into)\<close>, whose target \<open>into\<close> is an \<^verbatim>\<open>interface{}\<close> that
  may be nil.
\<close>

record ('v, 't) env =
  json_Marshal :: "'v \<Rightarrow> go_error + string"
  http_NewRequest :: "string \<Rightarrow> string \<Rightarrow> string \<Rightarrow> go_error + request"
  http_Do :: "request \<Rightarrow> go_error + response"
  json_Decode :: "readCloser \<Rightarrow> 't option \<Rightarrow> go_error option"

text \<open>
  \<^verbatim>\<open>strconv.Itoa\<close>: the decimal digits of an integer, with a minus sign when negative.
  \<^verbatim>\<open>strings.HasPrefix(s, prefix)\<close> is
  \<^verbatim>\<open>len(s) >= len(prefix) && s[:len(prefix)] == prefix\<close>.
\<close>

definition digit :: "nat \<Rightarrow> char" where
  "digit d = ''0123456789'' ! d"

fun formatBits :: "nat \<Rightarrow> string" where
  "formatBits u = (if u < 10 then [digit u] else formatBits (u div 10) @ [digit (u mod 10)])"

declare formatBits.simps [simp del]

definition Itoa :: "int \<Rightarrow> string" where
  "Itoa i = (if i < 0 then CHR ''-'' # formatBits (nat (- i)) else formatBits (nat i))"

definition HasPrefix :: "string \<Rightarrow> string \<Rightarrow> bool" where
  "HasPrefix s pre = (length pre \<le> length s \<and> take (length pre) s = pre)"

subsection \<open>The client\<close>

definition httpPortDefault :: int where
  "httpPortDefault = 80"

definition httpsPortDefault :: int where
  "httpsPortDefault = 443"

text \<open>
  \<^verbatim>\<open>type httpClient struct\<close>. A nil slice of status codes is \<open>[]\<close>, a nil constructor
  is \<open>None\<close>.
\<close>

record httpClient =
  host :: string
  port :: int
  useHTTPS :: bool
  customErrorStatusCodes :: "int list"
  customErrorConstructor :: "constructor option"

definition New :: "string \<Rightarrow> int \<Rightarrow> bool \<Rightarrow> httpClient" where
  "New h p tls = \<lparr>host = h, port = p, useHTTPS = tls,
     customErrorStatusCodes = [], customErrorConstructor = None\<rparr>"

text \<open>\<^verbatim>\<open>fullPath\<close>: the three \<^verbatim>\<open>if\<close> statements in the order of the source.\<close>

definition fullPath :: "httpClient \<Rightarrow> string \<Rightarrow> string" where
  "fullPath client path =
     (let (proto, defaultPort) =
            (if useHTTPS client then (''https'', httpsPortDefault)
             else (''http'', httpPortDefault));
          port' = (if port client \<noteq> defaultPort then '':'' @ Itoa (port client) else '''');
          path' = (if \<not> HasPrefix path ''/'' then ''/'' @ path else path)
      in proto @ ''://'' @ host client @ port' @ path')"

text \<open>\<^verbatim>\<open>SetErrorConstructor\<close> assigns the two fields of the client it is called on.\<close>

definition SetErrorConstructor :: "int list \<Rightarrow> constructor option \<Rightarrow> httpClient \<Rightarrow> httpClient" where
  "SetErrorConstructor statusCodes fn client =
     client\<lparr>customErrorStatusCodes := statusCodes, customErrorConstructor := fn\<rparr>"

text \<open>\<^verbatim>\<open>hasCustomError\<close>: the \<^verbatim>\<open>range\<close> loop returns at the first equal code.\<close>

fun rangeStatusCodes :: "int list \<Rightarrow> int \<Rightarrow> bool" where
  "rangeStatusCodes [] statusCode = False"
| "rangeStatusCodes (c # cs) statusCode =
     (if c = statusCode then True else rangeStatusCodes cs statusCode)"

definition hasCustomError :: "httpClient \<Rightarrow> int \<Rightarrow> bool" where
  "hasCustomError client statusCode = rangeStatusCodes (customErrorStatusCodes client) statusCode"

subsection \<open>The request functions of \<^verbatim>\<open>src/unnamed/part_000\<close>\<close>

text \<open>
  \<^verbatim>\<open>customErrorResponse\<close> defers \<^verbatim>\<open>resp.Body.Close()\<close> and calls the constructor. Calling a
  nil function value panics; the deferred \<^verbatim>\<open>Close\<close> still runs.
\<close>

definition customErrorResponse ::
    "httpClient \<Rightarrow> request \<Rightarrow> response \<Rightarrow> go_error option outcome \<times> event list" where
  "customErrorResponse client req resp =
     (case customErrorConstructor client of
        None \<Rightarrow> (Panic, [Closed (Body resp)])
      | Some fn \<Rightarrow>
          (let (err, evs) = fn req resp
           in (Return err, Called req resp # evs @ [Closed (Body resp)])))"

text \<open>
  \<^verbatim>\<open>requestRaw\<close> returns \<^verbatim>\<open>(int, io.ReadCloser, error)\<close>. In the last \<^verbatim>\<open>return\<close> the variable
  \<^verbatim>\<open>err\<close> is nil, the branch \<^verbatim>\<open>err != nil\<close> having returned before.
\<close>

definition requestRaw ::
    "('v, 't) env \<Rightarrow> httpClient \<Rightarrow> string \<Rightarrow> string \<Rightarrow> string
       \<Rightarrow> (int \<times> readCloser option \<times> go_error option) outcome \<times> event list" where
  "requestRaw e client method path payload =
     (let fullPath' = fullPath client path
      in case http_NewRequest e method fullPath' payload of
           Inl err \<Rightarrow> (Return (- 1, None, Some err), [])
         | Inr req \<Rightarrow>
             (case http_Do e req of
                Inl err \<Rightarrow> (Return (- 1, None, Some err), [Sent req])
              | Inr resp \<Rightarrow>
                  if hasCustomError client (StatusCode resp)
                  then (case customErrorResponse client req resp of
                          (Panic, evs) \<Rightarrow> (Panic, Sent req # evs)
                        | (Return err, evs) \<Rightarrow>
                            (Return (StatusCode resp, None, err), Sent req # evs))
                  else (Return (StatusCode resp, Some (Body resp), None), [Sent req])))"

text \<open>
  \<^verbatim>\<open>request\<close>: the type assertion \<^verbatim>\<open>payload.(io.Reader)\<close>, and \<^verbatim>\<open>json.Marshal\<close> when it
  fails; \<^verbatim>\<open>bytes.NewBuffer(enc)\<close> is a reader of the encoded bytes.
\<close>

definition request ::
    "('v, 't) env \<Rightarrow> httpClient \<Rightarrow> string \<Rightarrow> string \<Rightarrow> 'v payload
       \<Rightarrow> (int \<times> readCloser option \<times> go_error option) outcome \<times> event list" where
  "request e client method path payload =
     (case payload of
        Reader rdr \<Rightarrow> requestRaw e client method path rdr
      | Value v \<Rightarrow>
          (case json_Marshal e v of
             Inl err \<Rightarrow> (Return (- 1, None, Some err), [])
           | Inr enc \<Rightarrow> requestRaw e client method path enc))"

definition handleJSONResponse ::
    "('v, 't) env \<Rightarrow> readCloser \<Rightarrow> 't option \<Rightarrow> go_error option \<times> event list" where
  "handleJSONResponse e body into =
     (if into = None then (None, [])
      else (json_Decode e body into, [Decoded body]))"

text \<open>
  \<^verbatim>\<open>requestJSON\<close> returns \<^verbatim>\<open>(int, error)\<close>. The statement \<^verbatim>\<open>defer body.Close()\<close> evaluates
  the method value \<^verbatim>\<open>body.Close\<close>, which panics with a nil pointer dereference when
  \<^verbatim>\<open>body\<close> is the nil interface; otherwise \<^verbatim>\<open>Close\<close> runs after \<^verbatim>\<open>handleJSONResponse\<close>.
\<close>

definition requestJSON ::
    "('v, 't) env \<Rightarrow> httpClient \<Rightarrow> string \<Rightarrow> string \<Rightarrow> 'v payload \<Rightarrow> 't option
       \<Rightarrow> (int \<times> go_error option) outcome \<times> event list" where
  "requestJSON e client method path payload into =
     (case request e client method path payload of
        (Panic, evs) \<Rightarrow> (Panic, evs)
      | (Return (status, body, err), evs) \<Rightarrow>
          (case err of
             Some err' \<Rightarrow> (Return (status, Some err'), evs)
           | None \<Rightarrow>
               (case body of
                  None \<Rightarrow> (Panic, evs)
                | Some b \<Rightarrow>
                    (let (derr, devs) = handleJSONResponse e b into
                     in (Return (status, derr), evs @ devs @ [Closed b])))))"

definition Do ::
    "('v, 't) env \<Rightarrow> httpClient \<Rightarrow> string \<Rightarrow> string \<Rightarrow> 'v payload \<Rightarrow> 't option
       \<Rightarrow> (int \<times> go_error option) outcome \<times> event list" where
  "Do e client method path payload into = requestJSON e client method path payload into"

definition DoStream ::
    "('v, 't) env \<Rightarrow> httpClient \<Rightarrow> string \<Rightarrow> string \<Rightarrow> 'v payload
       \<Rightarrow> (int \<times> readCloser option \<times> go_error option) outcome \<times> event list" where
  "DoStream e client method path payload = request e client method path payload"

subsection \<open>The request functions of \<^verbatim>\<open>src/restclient.go\<close>\<close>

text \<open>
  Here the parameters are declared in the order \<^verbatim>\<open>path, method\<close>,
  \<^verbatim>\<open>customErrorResponse\<close> only calls the constructor, and \<^verbatim>\<open>requestJSON\<close> decodes into
  \<^verbatim>\<open>into\<close> whatever it is.
\<close>

definition customErrorResponse_rc ::
    "httpClient \<Rightarrow> request \<Rightarrow> response \<Rightarrow> go_error option outcome \<times> event list" where
  "customErrorResponse_rc client req resp =
     (case customErrorConstructor client of
        None \<Rightarrow> (Panic, [])
      | Some fn \<Rightarrow>
          (let (err, evs) = fn req resp
           in (Return err, Called req resp # evs)))"

definition requestRaw_rc ::
    "('v, 't) env \<Rightarrow> httpClient \<Rightarrow> string \<Rightarrow> string \<Rightarrow> string
       \<Rightarrow> (int \<times> readCloser option \<times> go_error option) outcome \<times> event list" where
  "requestRaw_rc e client path method payload =
     (let full_path = fullPath client path
      in case http_NewRequest e method full_path payload of
           Inl err \<Rightarrow> (Return (- 1, None, Some err), [])
         | Inr req \<Rightarrow>
             (case http_Do e req of
                Inl err \<Rightarrow> (Return (- 1, None, Some err), [Sent req])
              | Inr resp \<Rightarrow>
                  if hasCustomError client (StatusCode resp)
                  then (case customErrorResponse_rc client req resp of
                          (Panic, evs) \<Rightarrow> (Panic, Sent req # evs)
                        | (Return err, evs) \<Rightarrow>
                            (Return (StatusCode resp, None, err), Sent req # evs))
                  else (Return (StatusCode resp, Some (Body resp), None), [Sent req])))"

definition request_rc ::
    "('v, 't) env \<Rightarrow> httpClient \<Rightarrow> string \<Rightarrow> string \<Rightarrow> 'v payload
       \<Rightarrow> (int \<times> readCloser option \<times> go_error option) outcome \<times> event list" where
  "request_rc e client path method payload =
     (case payload of
        Reader rdr \<Rightarrow> requestRaw_rc e client path method rdr
      | Value v \<Rightarrow>
          (case json_Marshal e v of
             Inl err \<Rightarrow> (Return (- 1, None, Some err), [])
           | Inr enc \<Rightarrow> requestRaw_rc e client path method enc))"

definition requestJSON_rc ::
    "('v, 't) env \<Rightarrow> httpClient \<Rightarrow> string \<Rightarrow> string \<Rightarrow> 'v payload \<Rightarrow> 't option
       \<Rightarrow> (int \<times> go_error option) outcome \<times> event list" where
  "requestJSON_rc e client path method payload into =
     (case request_rc e client path method payload of
        (Panic, evs) \<Rightarrow> (Panic, evs)
      | (Return (status, body, err), evs) \<Rightarrow>
          (case err of
             Some err' \<Rightarrow> (Return (status, Some err'), evs)
           | None \<Rightarrow>
               (case body of
                  None \<Rightarrow> (Panic, evs)
                | Some b \<Rightarrow>
                    (Return (status, json_Decode e b into), evs @ [Decoded b, Closed b]))))"

definition Do_rc ::
    "('v, 't) env \<Rightarrow> httpClient \<Rightarrow> string \<Rightarrow> string \<Rightarrow> 'v payload \<Rightarrow> 't option
       \<Rightarrow> (int \<times> go_error option) outcome \<times> event list" where
  "Do_rc e client path method payload into = requestJSON_rc e client path method payload into"

definition DoStream_rc ::
    "('v, 't) env \<Rightarrow> httpClient \<Rightarrow> string \<Rightarrow> string \<Rightarrow> 'v payload
       \<Rightarrow> (int \<times> readCloser option \<times> go_error option) outcome \<times> event list" where
  "DoStream_rc e client path method payload = request_rc e client path method payload"

subsection \<open>A test environment after \<^verbatim>\<open>restclient_test.go\<close>\<close>

text \<open>
  The tests start a server on localhost with one handler per endpoint and a fixed status
  and body each. \<open>testEnv\<close> is such a setting: payloads are nil, a \<^verbatim>\<open>testRequest\<close> or a
  channel (which \<^verbatim>\<open>json.Marshal\<close> refuses); the server answers \<^verbatim>\<open>/hello\<close> with 200,
  \<^verbatim>\<open>/some_bad\<close> with 400 and \<^verbatim>\<open>/garbage\<close> with 200 and a body that is not JSON; any other
  URL cannot be reached. The decoder works as \<^verbatim>\<open>Decoder.Decode\<close> of \<^verbatim>\<open>encoding/json\<close>
  does: it reads and checks the next value of the body first and fails with a syntax
  error when that is not JSON; only then it looks at the target and fails with its
  \<^verbatim>\<open>InvalidUnmarshalError\<close> when the target is nil.
\<close>

datatype goValue = Nil | TestRequest string | Chan

definition testEnv :: "(goValue, unit) env" where
  "testEnv =
     \<lparr>json_Marshal = (\<lambda>v. case v of
          Nil \<Rightarrow> Inr ''null''
        | TestRequest q \<Rightarrow> Inr (''Query='' @ q)
        | Chan \<Rightarrow> Inl ''json: unsupported type: chan int''),
      http_NewRequest = (\<lambda>method url body.
          if method \<in> set [''GET'', ''POST'', ''PUT'', ''DELETE'']
          then Inr \<lparr>Method = method, URL = url, ReqBody = body\<rparr>
          else Inl ''net/http: invalid method''),
      http_Do = (\<lambda>req.
          if URL req = ''http://localhost/hello'' then Inr \<lparr>StatusCode = 200, Body = 1\<rparr>
          else if URL req = ''http://localhost/some_bad'' then Inr \<lparr>StatusCode = 400, Body = 2\<rparr>
          else if URL req = ''http://localhost/garbage'' then Inr \<lparr>StatusCode = 200, Body = 3\<rparr>
          else Inl ''dial tcp: connection refused''),
      json_Decode = (\<lambda>body into.
          if body = 3 then Some ''invalid character''
          else if into = None then Some ''json: Unmarshal(nil)''
          else None)\<rparr>"

text \<open>
  Two constructors: the one of \<^verbatim>\<open>TestCustomErrorConstructor\<close>, which reads the body and
  returns an error, and one that returns nil.
\<close>

definition errorCons :: constructor where
  "errorCons req resp = (Some ''response is not valid mate'', [ReadFrom (Body resp)])"

definition nilCons :: constructor where
  "nilCons req resp = (None, [])"

definition testClient :: httpClient where
  "testClient = New ''localhost'' 80 False"

definition someBadReq :: "string \<Rightarrow> request" where
  "someBadReq method = \<lparr>Method = method, URL = ''http://localhost/some_bad'', ReqBody = ''null''\<rparr>"

section \<open>Properties\<close>

subsection \<open>Shared lemmas\<close>

lemmas test_defs = testEnv_def testClient_def New_def SetErrorConstructor_def fullPath_def
  HasPrefix_def httpPortDefault_def httpsPortDefault_def errorCons_def nilCons_def
  someBadReq_def Let_def

lemma rangeStatusCodes_iff: "rangeStatusCodes cs s = (s \<in> set cs)"
  by (induction cs) auto

lemma hasCustomError_iff:
  "hasCustomError client statusCode = (statusCode \<in> set (customErrorStatusCodes client))"
  by (simp add: hasCustomError_def rangeStatusCodes_iff)


text \<open>The request body: the reader itself, or the bytes \<^verbatim>\<open>json.Marshal\<close> returned.\<close>

lemma request_body:
  assumes "payload = Reader b \<or> (\<exists>v. payload = Value v \<and> json_Marshal e v = Inr b)"
  shows "request e client method path payload = requestRaw e client method path b"
  using assms by (auto simp: request_def)

lemma request_rc_body:
  assumes "payload = Reader b \<or> (\<exists>v. payload = Value v \<and> json_Marshal e v = Inr b)"
  shows "request_rc e client path method payload = requestRaw_rc e client path method b"
  using assms by (auto simp: request_rc_def)

lemma requestRaw_ordinary:
  assumes "http_NewRequest e method (fullPath client path) b = Inr req"
    and "http_Do e req = Inr resp"
    and "StatusCode resp \<notin> set (customErrorStatusCodes client)"
  shows "requestRaw e client method path b =
           (Return (StatusCode resp, Some (Body resp), None), [Sent req])"
    and "requestRaw_rc e client path method b =
           (Return (StatusCode resp, Some (Body resp), None), [Sent req])"
  using assms by (simp_all add: requestRaw_def requestRaw_rc_def hasCustomError_iff)

lemma requestRaw_custom:
  assumes "http_NewRequest e method (fullPath client path) b = Inr req"
    and "http_Do e req = Inr resp"
    and "StatusCode resp \<in> set (customErrorStatusCodes client)"
    and "customErrorConstructor client = Some fn"
  shows "requestRaw e client method path b =
           (Return (StatusCode resp, None, fst (fn req resp)),
            Sent req # Called req resp # snd (fn req resp) @ [Closed (Body resp)])"
    and "requestRaw_rc e client path method b =
           (Return (StatusCode resp, None, fst (fn req resp)),
            Sent req # Called req resp # snd (fn req resp))"
  using assms
  by (simp_all add: requestRaw_def requestRaw_rc_def hasCustomError_iff
        customErrorResponse_def customErrorResponse_rc_def split: prod.splits)

subsection \<open>The custom error path\<close>

text \<open>
  What the custom error path does when a response with a listed status code is received
  and a constructor \<open>fn\<close> is set. In \<^verbatim>\<open>src/unnamed/part_000\<close>, \<^verbatim>\<open>DoStream\<close> returns the status
  code, a nil stream and the constructor's error, and the body is closed last. \<^verbatim>\<open>Do\<close> does
  the same when the constructor's error is not nil; when it is nil, \<^verbatim>\<open>requestJSON\<close> goes
  on to \<^verbatim>\<open>defer body.Close()\<close> with the nil body and panics. In \<^verbatim>\<open>src/restclient.go\<close> the
  client never closes the body on this path.
\<close>

lemma DoStream_custom_error:
  assumes "payload = Reader b \<or> (\<exists>v. payload = Value v \<and> json_Marshal e v = Inr b)"
    and "http_NewRequest e method (fullPath client path) b = Inr req"
    and "http_Do e req = Inr resp"
    and "StatusCode resp \<in> set (customErrorStatusCodes client)"
    and "customErrorConstructor client = Some fn"
  shows "DoStream e client method path payload =
           (Return (StatusCode resp, None, fst (fn req resp)),
            Sent req # Called req resp # snd (fn req resp) @ [Closed (Body resp)])"
  using request_body [OF assms(1)] requestRaw_custom(1) [OF assms(2-5)]
  by (simp add: DoStream_def)

lemma Do_custom_error:
  assumes "payload = Reader b \<or> (\<exists>v. payload = Value v \<and> json_Marshal e v = Inr b)"
    and "http_NewRequest e method (fullPath client path) b = Inr req"
    and "http_Do e req = Inr resp"
    and "StatusCode resp \<in> set (customErrorStatusCodes client)"
    and "customErrorConstructor client = Some fn"
  shows "Do e client method path payload into =
           (case fst (fn req resp) of
              Some err \<Rightarrow> Return (StatusCode resp, Some err)
            | None \<Rightarrow> Panic,
            Sent req # Called req resp # snd (fn req resp) @ [Closed (Body resp)])"
  using request_body [OF assms(1)] requestRaw_custom(1) [OF assms(2-5)]
  by (simp add: Do_def requestJSON_def split: option.splits)

lemma DoStream_rc_custom_error:
  assumes "payload = Reader b \<or> (\<exists>v. payload = Value v \<and> json_Marshal e v = Inr b)"
    and "http_NewRequest e method (fullPath client path) b = Inr req"
    and "http_Do e req = Inr resp"
    and "StatusCode resp \<in> set (customErrorStatusCodes client)"
    and "customErrorConstructor client = Some fn"
  shows "DoStream_rc e client path method payload =
           (Return (StatusCode resp, None, fst (fn req resp)),
            Sent req # Called req resp # snd (fn req resp))"
  using request_rc_body [OF assms(1)] requestRaw_custom(2) [OF assms(2-5)]
  by (simp add: DoStream_rc_def)

lemma Do_rc_custom_error:
  assumes "payload = Reader b \<or> (\<exists>v. payload = Value v \<and> json_Marshal e v = Inr b)"
    and "http_NewRequest e method (fullPath client path) b = Inr req"
    and "http_Do e req = Inr resp"
    and "StatusCode resp \<in> set (customErrorStatusCodes client)"
    and "customErrorConstructor client = Some fn"
  shows "Do_rc e client path method payload into =
           (case fst (fn req resp) of
              Some err \<Rightarrow> Return (StatusCode resp, Some err)
            | None \<Rightarrow> Panic,
            Sent req # Called req resp # snd (fn req resp))"
  using request_rc_body [OF assms(1)] requestRaw_custom(2) [OF assms(2-5)]
  by (simp add: Do_rc_def requestJSON_rc_def split: option.splits)

text \<open>
  Claim C1: whenever a response is received whose status code is in the custom-error list,
  the constructor is called with the request and the response, the body is closed before
  the call returns, and the call returns the real status code, a nil stream and the error
  the constructor produced. The code departs from this at two inputs, both with the list
  \<open>[400]\<close> and a server answering 400. With a constructor that returns nil, \<^verbatim>\<open>Do\<close> of
  \<^verbatim>\<open>src/unnamed/part_000\<close> panics instead of returning \<open>(400, nil)\<close>. With the constructor
  of the tests, \<^verbatim>\<open>DoStream\<close> of \<^verbatim>\<open>src/restclient.go\<close> returns with the body read and never
  closed.
\<close>

theorem custom_error_failing_inputs:
  "Do testEnv (SetErrorConstructor [400] (Some nilCons) testClient) ''POST'' ''/some_bad''
       (Value Nil) (Some ()) =
     (Panic,
      [Sent (someBadReq ''POST''),
       Called (someBadReq ''POST'') \<lparr>StatusCode = 400, Body = 2\<rparr>,
       Closed 2]) \<and>
   DoStream_rc testEnv (SetErrorConstructor [400] (Some errorCons) testClient)
       ''/some_bad'' ''POST'' (Value Nil) =
     (Return (400, None, Some ''response is not valid mate''),
      [Sent (someBadReq ''POST''),
       Called (someBadReq ''POST'') \<lparr>StatusCode = 400, Body = 2\<rparr>,
       ReadFrom 2])"
  by (simp add: Do_def requestJSON_def request_def requestRaw_def customErrorResponse_def
        hasCustomError_def DoStream_rc_def request_rc_def requestRaw_rc_def
        customErrorResponse_rc_def test_defs)

subsection \<open>Decoding\<close>

text \<open>
  With a nil target, \<^verbatim>\<open>Do\<close> of \<^verbatim>\<open>src/unnamed/part_000\<close> returns the status code and a nil
  error without running the decoder, and closes the body.
\<close>

lemma Do_nil_target:
  assumes "payload = Reader b \<or> (\<exists>v. payload = Value v \<and> json_Marshal e v = Inr b)"
    and "http_NewRequest e method (fullPath client path) b = Inr req"
    and "http_Do e req = Inr resp"
    and "StatusCode resp \<notin> set (customErrorStatusCodes client)"
  shows "Do e client method path payload None =
           (Return (StatusCode resp, None), [Sent req, Closed (Body resp)])"
  using request_body [OF assms(1)] requestRaw_ordinary(1) [OF assms(2-4)]
  by (simp add: Do_def requestJSON_def handleJSONResponse_def)

text \<open>
  Claim C2: when the request succeeds, no custom error fires and the target \<^verbatim>\<open>into\<close> is
  nil, \<^verbatim>\<open>Do\<close> attempts no JSON decoding, returns a nil error even for a body that is not
  JSON, and closes the body. \<^verbatim>\<open>Do\<close> of \<^verbatim>\<open>src/restclient.go\<close> has no nil guard: on the
  endpoint with the malformed body it runs the decoder on the nil target and returns the
  decoder's syntax error.
\<close>

theorem Do_rc_nil_target_decodes:
  "Do_rc testEnv testClient ''/garbage'' ''GET'' (Value Nil) None =
     (Return (200, Some ''invalid character''),
      [Sent \<lparr>Method = ''GET'', URL = ''http://localhost/garbage'', ReqBody = ''null''\<rparr>,
       Decoded 3, Closed 3])"
  by (simp add: Do_rc_def requestJSON_rc_def request_rc_def requestRaw_rc_def
        hasCustomError_def test_defs)

subsection \<open>Failures before a response\<close>

text \<open>
  Claim C3: when the payload is not an \<^verbatim>\<open>io.Reader\<close> and \<^verbatim>\<open>json.Marshal\<close> fails,
  \<^verbatim>\<open>Do\<close> and \<^verbatim>\<open>DoStream\<close> return the status -1 and the serialization error (and a nil
  stream), and nothing is sent: the call has no event at all. This holds in both files.
\<close>

theorem marshal_failure_sends_nothing:
  assumes "json_Marshal e v = Inl err"
  shows "DoStream e client method path (Value v) = (Return (- 1, None, Some err), []) \<and>
         Do e client method path (Value v) into = (Return (- 1, Some err), []) \<and>
         DoStream_rc e client path method (Value v) = (Return (- 1, None, Some err), []) \<and>
         Do_rc e client path method (Value v) into = (Return (- 1, Some err), [])"
  using assms
  by (simp add: DoStream_def Do_def requestJSON_def request_def
        DoStream_rc_def Do_rc_def requestJSON_rc_def request_rc_def)

theorem marshal_failure_sends_nothing_witness:
  "json_Marshal testEnv Chan = Inl ''json: unsupported type: chan int'' \<and>
   DoStream testEnv testClient ''POST'' ''/hello'' (Value Chan) =
     (Return (- 1, None, Some ''json: unsupported type: chan int''), []) \<and>
   Do testEnv testClient ''POST'' ''/hello'' (Value Chan) (Some ()) =
     (Return (- 1, Some ''json: unsupported type: chan int''), []) \<and>
   DoStream_rc testEnv testClient ''/hello'' ''POST'' (Value Chan) =
     (Return (- 1, None, Some ''json: unsupported type: chan int''), []) \<and>
   Do_rc testEnv testClient ''/hello'' ''POST'' (Value Chan) (Some ()) =
     (Return (- 1, Some ''json: unsupported type: chan int''), [])"
proof -
  have h: "json_Marshal testEnv Chan = Inl ''json: unsupported type: chan int''"
    by (simp add: testEnv_def)
  show ?thesis
    using h marshal_failure_sends_nothing [OF h, of testClient "''POST''" "''/hello''" "Some ()"]
    by simp
qed

text \<open>
  Claim C8: when the transport returns an error instead of a response, \<^verbatim>\<open>Do\<close> and
  \<^verbatim>\<open>DoStream\<close> return the status -1 and the transport error, with a nil stream; the only
  event of the call is the sending of the request, so no body is read, decoded or closed.
  This holds in both files.
\<close>

theorem transport_failure_returns_sentinel:
  assumes "payload = Reader b \<or> (\<exists>v. payload = Value v \<and> json_Marshal e v = Inr b)"
    and "http_NewRequest e method (fullPath client path) b = Inr req"
    and "http_Do e req = Inl err"
  shows "DoStream e client method path payload = (Return (- 1, None, Some err), [Sent req]) \<and>
         Do e client method path payload into = (Return (- 1, Some err), [Sent req]) \<and>
         DoStream_rc e client path method payload = (Return (- 1, None, Some err), [Sent req]) \<and>
         Do_rc e client path method payload into = (Return (- 1, Some err), [Sent req])"
  using request_body [OF assms(1)] request_rc_body [OF assms(1)] assms(2,3)
  by (simp add: DoStream_def Do_def requestJSON_def requestRaw_def
        DoStream_rc_def Do_rc_def requestJSON_rc_def requestRaw_rc_def)

theorem transport_failure_returns_sentinel_witness:
  "http_Do testEnv \<lparr>Method = ''GET'', URL = ''http://localhost/nowhere'', ReqBody = ''body''\<rparr> =
     Inl ''dial tcp: connection refused'' \<and>
   DoStream testEnv testClient ''GET'' ''/nowhere'' (Reader ''body'') =
     (Return (- 1, None, Some ''dial tcp: connection refused''),
      [Sent \<lparr>Method = ''GET'', URL = ''http://localhost/nowhere'', ReqBody = ''body''\<rparr>]) \<and>
   Do testEnv testClient ''GET'' ''/nowhere'' (Reader ''body'') (Some ()) =
     (Return (- 1, Some ''dial tcp: connection refused''),
      [Sent \<lparr>Method = ''GET'', URL = ''http://localhost/nowhere'', ReqBody = ''body''\<rparr>]) \<and>
   DoStream_rc testEnv testClient ''/nowhere'' ''GET'' (Reader ''body'') =
     (Return (- 1, None, Some ''dial tcp: connection refused''),
      [Sent \<lparr>Method = ''GET'', URL = ''http://localhost/nowhere'', ReqBody = ''body''\<rparr>]) \<and>
   Do_rc testEnv testClient ''/nowhere'' ''GET'' (Reader ''body'') (Some ()) =
     (Return (- 1, Some ''dial tcp: connection refused''),
      [Sent \<lparr>Method = ''GET'', URL = ''http://localhost/nowhere'', ReqBody = ''body''\<rparr>])"
proof -
  let ?req = "\<lparr>Method = ''GET'', URL = ''http://localhost/nowhere'', ReqBody = ''body''\<rparr>"
  have h1: "(Reader ''body'' :: goValue payload) = Reader ''body'' \<or>
      (\<exists>v. Reader ''body'' = Value v \<and> json_Marshal testEnv v = Inr ''body'')"
    by simp
  have h2: "http_NewRequest testEnv ''GET'' (fullPath testClient ''/nowhere'') ''body'' = Inr ?req"
    by (simp add: test_defs)
  have h3: "http_Do testEnv ?req = Inl ''dial tcp: connection refused''"
    by (simp add: test_defs)
  show ?thesis
    using h3 transport_failure_returns_sentinel [OF h1 h2 h3, of "Some ()"] by simp
qed

text \<open>
  Claim C9: when \<^verbatim>\<open>http.NewRequest\<close> refuses the method or the assembled URL, \<^verbatim>\<open>Do\<close> and
  \<^verbatim>\<open>DoStream\<close> return the status -1 and that error, with a nil stream, and nothing is sent.
  This holds in both files.
\<close>

theorem NewRequest_failure_returns_sentinel:
  assumes "payload = Reader b \<or> (\<exists>v. payload = Value v \<and> json_Marshal e v = Inr b)"
    and "http_NewRequest e method (fullPath client path) b = Inl err"
  shows "DoStream e client method path payload = (Return (- 1, None, Some err), []) \<and>
         Do e client method path payload into = (Return (- 1, Some err), []) \<and>
         DoStream_rc e client path method payload = (Return (- 1, None, Some err), []) \<and>
         Do_rc e client path method payload into = (Return (- 1, Some err), [])"
  using request_body [OF assms(1)] request_rc_body [OF assms(1)] assms(2)
  by (simp add: DoStream_def Do_def requestJSON_def requestRaw_def
        DoStream_rc_def Do_rc_def requestJSON_rc_def requestRaw_rc_def)

theorem NewRequest_failure_returns_sentinel_witness:
  "http_NewRequest testEnv ''GE T'' (fullPath testClient ''/hello'') ''null'' =
     Inl ''net/http: invalid method'' \<and>
   DoStream testEnv testClient ''GE T'' ''/hello'' (Value Nil) =
     (Return (- 1, None, Some ''net/http: invalid method''), []) \<and>
   Do testEnv testClient ''GE T'' ''/hello'' (Value Nil) (Some ()) =
     (Return (- 1, Some ''net/http: invalid method''), []) \<and>
   DoStream_rc testEnv testClient ''/hello'' ''GE T'' (Value Nil) =
     (Return (- 1, None, Some ''net/http: invalid method''), []) \<and>
   Do_rc testEnv testClient ''/hello'' ''GE T'' (Value Nil) (Some ()) =
     (Return (- 1, Some ''net/http: invalid method''), [])"
proof -
  have h1: "Value Nil = Reader ''null'' \<or>
      (\<exists>v. Value Nil = Value v \<and> json_Marshal testEnv v = Inr ''null'')"
    by (simp add: testEnv_def)
  have h2: "http_NewRequest testEnv ''GE T'' (fullPath testClient ''/hello'') ''null'' =
      Inl ''net/http: invalid method''"
    by (simp add: test_defs)
  show ?thesis
    using h2 NewRequest_failure_returns_sentinel [OF h1 h2, of "Some ()"] by simp
qed

subsection \<open>URL assembly\<close>

text \<open>
  Claim C4: for a client with host \<open>h\<close>, port \<open>n\<close> and TLS flag \<open>t\<close>, \<^verbatim>\<open>fullPath(p)\<close> is the
  scheme (\<^verbatim>\<open>https\<close> if \<open>t\<close>, else \<^verbatim>\<open>http\<close>), then \<^verbatim>\<open>://\<close>, then \<open>h\<close>, then the port segment
  (empty when \<open>n\<close> is the default of the scheme, 443 or 80, and a colon with the decimal
  digits of \<open>n\<close> otherwise), then \<open>p\<close> with a slash put in front unless it starts with one.
\<close>

theorem fullPath_shape:
  "fullPath \<lparr>host = h, port = n, useHTTPS = t,
       customErrorStatusCodes = S, customErrorConstructor = f\<rparr> p =
     (if t then ''https'' else ''http'') @ ''://'' @ h @
     (if n = (if t then 443 else 80) then [] else '':'' @ Itoa n) @
     (case p of [] \<Rightarrow> ''/'' @ p | c # _ \<Rightarrow> if c = CHR ''/'' then p else ''/'' @ p)"
  by (simp add: fullPath_def HasPrefix_def httpPortDefault_def httpsPortDefault_def
        split: list.splits)

text \<open>The table of \<^verbatim>\<open>TestHttpClientPath\<close>.\<close>

theorem fullPath_shape_witness:
  "fullPath (New ''foo.net'' 80 False) ''/haha'' = ''http://foo.net/haha'' \<and>
   fullPath (New ''bar.net'' 81 False) ''/haha'' = ''http://bar.net:81/haha'' \<and>
   fullPath (New ''bang.net'' 443 True) ''/haha'' = ''https://bang.net/haha'' \<and>
   fullPath (New ''bux.net'' 444 True) ''/haha'' = ''https://bux.net:444/haha'' \<and>
   fullPath (New ''foo.net'' 80 False) ''haha'' = ''http://foo.net/haha'' \<and>
   fullPath (New ''bar.net'' 81 False) ''haha'' = ''http://bar.net:81/haha''"
  unfolding New_def fullPath_shape
  by (simp add: Itoa_def formatBits.simps digit_def)

text \<open>
  Claim C5: for a path \<open>x\<close> that does not start with a slash, \<^verbatim>\<open>fullPath(x)\<close> equals
  \<^verbatim>\<open>fullPath("/" + x)\<close>.
\<close>

theorem fullPath_slash_normalised:
  assumes "x = [] \<or> hd x \<noteq> CHR ''/''"
  shows "fullPath client x = fullPath client (''/'' @ x)"
  using assms by (cases x) (auto simp: fullPath_def HasPrefix_def Let_def)

theorem fullPath_slash_normalised_witness:
  "(''haha'' = [] \<or> hd ''haha'' \<noteq> CHR ''/'') \<and>
   fullPath (New ''bar.net'' 81 False) ''haha'' = fullPath (New ''bar.net'' 81 False) ''/haha''"
proof -
  have h: "''haha'' = [] \<or> hd ''haha'' \<noteq> CHR ''/''"
    by simp
  show ?thesis
    using h fullPath_slash_normalised [OF h, of "New ''bar.net'' 81 False"] by simp
qed

subsection \<open>Status codes outside the custom-error list\<close>

text \<open>
  Claim C6: when a response is received whose status code (a 4xx or 5xx code included) is
  not in the custom-error list, the call is an ordinary success. \<^verbatim>\<open>DoStream\<close> returns the
  real status code, the body as an open stream and a nil error. \<^verbatim>\<open>Do\<close> returns the real
  status code and what the JSON decoder returned for the body and the target, and closes
  the body; with a nil target \<^verbatim>\<open>src/unnamed/part_000\<close> skips the decoder and
  \<^verbatim>\<open>src/restclient.go\<close> runs it on the nil target.
\<close>

theorem unlisted_status_is_success:
  assumes "payload = Reader b \<or> (\<exists>v. payload = Value v \<and> json_Marshal e v = Inr b)"
    and "http_NewRequest e method (fullPath client path) b = Inr req"
    and "http_Do e req = Inr resp"
    and "StatusCode resp \<notin> set (customErrorStatusCodes client)"
  shows "DoStream e client method path payload =
           (Return (StatusCode resp, Some (Body resp), None), [Sent req]) \<and>
         Do e client method path payload into =
           (Return (StatusCode resp, if into = None then None else json_Decode e (Body resp) into),
            Sent req # (if into = None then [] else [Decoded (Body resp)]) @ [Closed (Body resp)]) \<and>
         DoStream_rc e client path method payload =
           (Return (StatusCode resp, Some (Body resp), None), [Sent req]) \<and>
         Do_rc e client path method payload into =
           (Return (StatusCode resp, json_Decode e (Body resp) into),
            [Sent req, Decoded (Body resp), Closed (Body resp)])"
  using request_body [OF assms(1)] request_rc_body [OF assms(1)] requestRaw_ordinary [OF assms(2-4)]
  by (simp add: DoStream_def Do_def requestJSON_def handleJSONResponse_def
        DoStream_rc_def Do_rc_def requestJSON_rc_def)

theorem unlisted_status_is_success_witness:
  "http_Do testEnv (someBadReq ''GET'') = Inr \<lparr>StatusCode = 400, Body = 2\<rparr> \<and>
   400 \<notin> set (customErrorStatusCodes testClient) \<and>
   DoStream testEnv testClient ''GET'' ''/some_bad'' (Value Nil) =
     (Return (400, Some 2, None), [Sent (someBadReq ''GET'')]) \<and>
   Do testEnv testClient ''GET'' ''/some_bad'' (Value Nil) (Some ()) =
     (Return (400, None), [Sent (someBadReq ''GET''), Decoded 2, Closed 2]) \<and>
   DoStream_rc testEnv testClient ''/some_bad'' ''GET'' (Value Nil) =
     (Return (400, Some 2, None), [Sent (someBadReq ''GET'')]) \<and>
   Do_rc testEnv testClient ''/some_bad'' ''GET'' (Value Nil) (Some ()) =
     (Return (400, None), [Sent (someBadReq ''GET''), Decoded 2, Closed 2])"
proof -
  let ?resp = "\<lparr>StatusCode = 400, Body = 2\<rparr>"
  have h1: "Value Nil = Reader ''null'' \<or>
      (\<exists>v. Value Nil = Value v \<and> json_Marshal testEnv v = Inr ''null'')"
    by (simp add: testEnv_def)
  have h2: "http_NewRequest testEnv ''GET'' (fullPath testClient ''/some_bad'') ''null'' =
      Inr (someBadReq ''GET'')"
    by (simp add: test_defs)
  have h3: "http_Do testEnv (someBadReq ''GET'') = Inr ?resp"
    by (simp add: test_defs)
  have h4: "StatusCode ?resp \<notin> set (customErrorStatusCodes testClient)"
    by (simp add: test_defs)
  have d: "json_Decode testEnv 2 (Some ()) = None"
    by (simp add: testEnv_def)
  show ?thesis
    using h3 h4 d unlisted_status_is_success [OF h1 h2 h3 h4, of "Some ()"] by simp
qed

subsection \<open>Setting the error constructor\<close>



text \<open>
  Claim C10: \<^verbatim>\<open>SetErrorConstructor\<close> leaves the host, the port and the TLS flag as they
  were, so \<^verbatim>\<open>fullPath\<close> returns the same string for every path before and after the call.
\<close>

theorem SetErrorConstructor_frame:
  "host (SetErrorConstructor S f client) = host client \<and>
   port (SetErrorConstructor S f client) = port client \<and>
   useHTTPS (SetErrorConstructor S f client) = useHTTPS client \<and>
   fullPath (SetErrorConstructor S f client) p = fullPath client p"
  by (simp add: SetErrorConstructor_def fullPath_def)

theorem SetErrorConstructor_frame_witness:
  "fullPath (SetErrorConstructor [400] (Some errorCons) (New ''bar.net'' 81 False)) ''/haha'' =
     fullPath (New ''bar.net'' 81 False) ''/haha'' \<and>
   port (SetErrorConstructor [400] (Some errorCons) (New ''bar.net'' 81 False)) = 81"
  using SetErrorConstructor_frame [of "[400]" "Some errorCons" "New ''bar.net'' 81 False" "''/haha''"]
  by (simp add: New_def)

end
